theory Spec2Isabelle
  imports Main "HOL-Library.Word"
begin

section \<open>Data model\<close>

text \<open>
  The exceptions and aborts of the source, as values. \<open>AssertionFailure\<close> is a failed
  \<^verbatim>\<open>assert(...)\<close> / \<^verbatim>\<open>Assert(...)\<close>; \<open>OutOfBounds\<close> marks a read of
  \<^verbatim>\<open>std::vector::operator[]\<close> at an index that is not below \<^verbatim>\<open>size()\<close>
  (undefined behaviour in C++); \<open>BackendFailure\<close> is an exception raised by the wrapped
  engine.
\<close>

datatype error =
    NotImplementedException
  | IncorrectUsageException
  | AssertionFailure
  | OutOfBounds
  | BackendFailure

text \<open>
  The kinds of sorts, as sort\_inference.cpp and the unit tests of sorts name them
  (the enumeration itself is in the absent sort.h). \<open>INT_SK\<close> is the source's
  \<^verbatim>\<open>INT\<close>.
\<close>

datatype SortKind =
  ARRAY | BOOL | BV | INT_SK | REAL | FUNCTION | UNINTERPRETED | UNINTERPRETED_CONS

text \<open>
  Modelled from the spec: the closed algebra of sorts of section 3 (sort.h is absent).
  Two sorts are equal iff their tags and parameters are structurally equal, which is HOL
  equality on this datatype; it stands for the source's \<^verbatim>\<open>operator==\<close> on
  \<^verbatim>\<open>Sort\<close>.
\<close>

datatype Sort =
    BoolSort
  | BVSort nat
  | IntSort
  | RealSort
  | ArraySort Sort Sort
  | FunctionSort "Sort list" Sort
  | UninterpretedSort string
  | UninterpretedConsSort string nat
  | UninterpretedAppliedSort Sort "Sort list"

text \<open>
  Modelled from the spec: \<^verbatim>\<open>get_sort_kind\<close>, the outer tag of a sort (sort.h is
  absent); an applied sort constructor is an uninterpreted sort of arity 0.
\<close>

fun get_sort_kind :: "Sort \<Rightarrow> SortKind" where
  "get_sort_kind BoolSort = BOOL"
| "get_sort_kind (BVSort w) = BV"
| "get_sort_kind IntSort = INT_SK"
| "get_sort_kind RealSort = REAL"
| "get_sort_kind (ArraySort i e) = ARRAY"
| "get_sort_kind (FunctionSort ds c) = FUNCTION"
| "get_sort_kind (UninterpretedSort n) = UNINTERPRETED"
| "get_sort_kind (UninterpretedConsSort n a) = UNINTERPRETED_CONS"
| "get_sort_kind (UninterpretedAppliedSort c ps) = UNINTERPRETED"

text \<open>
  Modelled from the spec: \<^verbatim>\<open>get_domain_sorts\<close> (sort.h is absent), the domain of a
  function sort. Asking a sort for a parameter its kind does not have is a usage error.
\<close>

fun get_domain_sorts :: "Sort \<Rightarrow> error + Sort list" where
  "get_domain_sorts (FunctionSort ds c) = Inr ds"
| "get_domain_sorts s = Inl IncorrectUsageException"

text \<open>
  Modelled from the spec: \<^verbatim>\<open>get_indexsort\<close> (sort.h is absent), the index sort of
  an array sort, and a usage error on any other sort.
\<close>

fun get_indexsort :: "Sort \<Rightarrow> error + Sort" where
  "get_indexsort (ArraySort i e) = Inr i"
| "get_indexsort s = Inl IncorrectUsageException"

text \<open>
  Modelled from the spec: \<^verbatim>\<open>get_elemsort\<close> (sort.h is absent), the element sort of
  an array sort, and a usage error on any other sort.
\<close>

fun get_elemsort :: "Sort \<Rightarrow> error + Sort" where
  "get_elemsort (ArraySort i e) = Inr e"
| "get_elemsort s = Inl IncorrectUsageException"

text \<open>
  Modelled from the spec: the enumeration of primitive operators (ops.h is absent). It has
  the operators of section 4.1, which are the keys of the dispatch table of
  sort\_inference.cpp, and \<open>NullPrimOp\<close>, the primitive operator of the empty operator
  \<^verbatim>\<open>Op()\<close> that leaves carry. \<open>NotOp\<close>, \<open>PlusOp\<close> and \<open>PowOp\<close> are the source's
  \<^verbatim>\<open>Not\<close>, \<^verbatim>\<open>Plus\<close> and \<^verbatim>\<open>Pow\<close>.
\<close>

datatype PrimOp =
    And | Or | Xor | NotOp | Implies | Iff | Ite | Equal | Distinct | Apply
  | PlusOp | Minus | Negate | Mult | Div | Lt | Le | Gt | Ge | Mod | Abs | PowOp
  | IntDiv | To_Real | To_Int | Is_Int
  | Concat | Extract | BVNot | BVNeg | BVAnd | BVOr | BVXor | BVNand | BVNor
  | BVXnor | BVAdd | BVSub | BVMul | BVUdiv | BVSdiv | BVUrem | BVSrem | BVSmod
  | BVShl | BVAshr | BVLshr | BVComp | BVUlt | BVUle | BVUgt | BVUge | BVSlt
  | BVSle | BVSgt | BVSge | Zero_Extend | Sign_Extend | Repeat | Rotate_Left
  | Rotate_Right | BV_To_Nat | Int_To_BV | Select | Store
  | NullPrimOp

text \<open>
  Modelled from the spec: an operator (ops.h is absent), a primitive operator with its
  integer indices.
\<close>

datatype Op = Op (prim_op: PrimOp) (indices: "nat list")

text \<open>Modelled from the spec: the empty operator \<^verbatim>\<open>Op()\<close> (ops.h is absent).\<close>

definition null_Op :: Op where
  "null_Op = Op NullPrimOp []"

text \<open>
  Modelled from the spec: the logging term of section 3 (logging\_term.h is absent), with
  the fields in the order in which logging\_solver.cpp passes them to the constructor:
  the engine's term, the sort, the operator, the children, and the name of a symbol. A
  \<^verbatim>\<open>Term\<close> is a shared pointer to an immutable \<^verbatim>\<open>LoggingTerm\<close>: the model
  keeps the identity of the object (\<open>obj_id\<close>, its address) next to its fields. \<open>'b\<close> is
  the type of the opaque handles of the wrapped engine.
\<close>

datatype 'b Term =
  LoggingTerm (obj_id: nat) (wrapped: 'b) (get_sort: Sort) (get_op: Op)
    (get_children: "'b Term list") (symbol_name: "string option")

section \<open>Sort inference (sort\_inference.cpp)\<close>

fun adjacent_find :: "('a \<Rightarrow> 'a \<Rightarrow> bool) \<Rightarrow> 'a list \<Rightarrow> 'a list" where
  "adjacent_find p (x # y # xs) =
     (if p x y then x # y # xs else adjacent_find p (y # xs))"
| "adjacent_find p [x] = []"
| "adjacent_find p [] = []"

definition equal_sorts :: "Sort list \<Rightarrow> error + bool" where
  "equal_sorts sorts =
     (if length sorts = 0 then Inl AssertionFailure
      else Inr (adjacent_find (\<lambda>a b. a \<noteq> b) sorts = []))"

fun check_sortkind_matches :: "SortKind \<Rightarrow> Sort list \<Rightarrow> bool" where
  "check_sortkind_matches sk [] = True"
| "check_sortkind_matches sk (s # sorts) =
     (if sk \<noteq> get_sort_kind s then False else check_sortkind_matches sk sorts)"

definition equal_sortkinds :: "Sort list \<Rightarrow> error + bool" where
  "equal_sortkinds sorts =
     (if length sorts = 0 then Inl AssertionFailure
      else Inr (check_sortkind_matches (get_sort_kind (sorts ! 0)) (tl sorts)))"

definition check_ite_sorts :: "Sort list \<Rightarrow> error + bool" where
  "check_ite_sorts sorts =
     (if length sorts \<noteq> 3 then Inl AssertionFailure
      else Inr (get_sort_kind (sorts ! 0) = BOOL \<and> sorts ! 1 = sorts ! 2))"

text \<open>
  The loop of \<^verbatim>\<open>check_apply_sorts\<close>, from index \<open>i\<close>. It reads
  \<^verbatim>\<open>domain_sorts[i]\<close>, which the loop condition keeps in range, and
  \<^verbatim>\<open>sorts[i + 1]\<close>, which nothing in the loop keeps in range.
\<close>

function check_apply_loop :: "Sort list \<Rightarrow> Sort list \<Rightarrow> nat \<Rightarrow> error + bool" where
  "check_apply_loop domain_sorts sorts i =
     (if i < length domain_sorts then
        (if i + 1 < length sorts then
           (if domain_sorts ! i \<noteq> sorts ! (i + 1) then Inr False
            else check_apply_loop domain_sorts sorts (i + 1))
         else Inl OutOfBounds)
      else Inr True)"
  by pat_completeness auto
termination
  by (relation "measure (\<lambda>(d, s, i). length d - i)") auto

declare check_apply_loop.simps [simp del]

definition check_apply_sorts :: "Sort list \<Rightarrow> error + bool" where
  "check_apply_sorts sorts =
     (if length sorts = 0 then Inl AssertionFailure
      else if get_sort_kind (sorts ! 0) \<noteq> FUNCTION then Inr False
      else case get_domain_sorts (sorts ! 0) of
             Inl e \<Rightarrow> Inl e
           | Inr domain_sorts \<Rightarrow>
               if length domain_sorts \<noteq> length sorts + 1 then Inr False
               else check_apply_loop domain_sorts sorts 0)"

definition check_select_sorts :: "Sort list \<Rightarrow> error + bool" where
  "check_select_sorts sorts =
     (if length sorts = 0 then Inl AssertionFailure
      else if length sorts \<noteq> 2 then Inr False
      else if get_sort_kind (sorts ! 0) \<noteq> ARRAY then Inr False
      else case get_indexsort (sorts ! 0) of
             Inl e \<Rightarrow> Inl e
           | Inr idx \<Rightarrow> if sorts ! 1 \<noteq> idx then Inr False else Inr True)"

definition check_store_sorts :: "Sort list \<Rightarrow> error + bool" where
  "check_store_sorts sorts =
     (if length sorts = 0 then Inl AssertionFailure
      else if length sorts \<noteq> 3 then Inr False
      else if get_sort_kind (sorts ! 0) \<noteq> ARRAY then Inr False
      else case get_indexsort (sorts ! 0) of
             Inl e \<Rightarrow> Inl e
           | Inr idx \<Rightarrow>
               if sorts ! 1 \<noteq> idx then Inr False
               else (case get_elemsort (sorts ! 0) of
                       Inl e \<Rightarrow> Inl e
                     | Inr el \<Rightarrow> if sorts ! 2 \<noteq> el then Inr False else Inr True))"

text \<open>
  The dispatch table names six predicates that sort\_inference.cpp does not define. Each is
  modelled from section 4.1 of the spec, through the source's
  \<^verbatim>\<open>check_sortkind_matches\<close> and \<^verbatim>\<open>equal_sorts\<close>.
\<close>

text \<open>Modelled from the spec: \<^verbatim>\<open>bool_sorts\<close>, "all arguments Bool".\<close>

definition bool_sorts :: "Sort list \<Rightarrow> error + bool" where
  "bool_sorts sorts = Inr (check_sortkind_matches BOOL sorts)"

text \<open>Modelled from the spec: \<^verbatim>\<open>bv_sorts\<close>, all arguments "BV".\<close>

definition bv_sorts :: "Sort list \<Rightarrow> error + bool" where
  "bv_sorts sorts = Inr (check_sortkind_matches BV sorts)"

text \<open>Modelled from the spec: \<^verbatim>\<open>eq_bv_sorts\<close>, "all BV of identical width".\<close>

definition eq_bv_sorts :: "Sort list \<Rightarrow> error + bool" where
  "eq_bv_sorts sorts =
     (if check_sortkind_matches BV sorts then equal_sorts sorts else Inr False)"

text \<open>Modelled from the spec: \<^verbatim>\<open>int_sorts\<close>, all arguments "Int".\<close>

definition int_sorts :: "Sort list \<Rightarrow> error + bool" where
  "int_sorts sorts = Inr (check_sortkind_matches INT_SK sorts)"

text \<open>Modelled from the spec: \<^verbatim>\<open>real_sorts\<close>, all arguments "Real".\<close>

definition real_sorts :: "Sort list \<Rightarrow> error + bool" where
  "real_sorts sorts = Inr (check_sortkind_matches REAL sorts)"

text \<open>
  Modelled from the spec: \<^verbatim>\<open>arithmetic_sorts\<close>, "all arguments Int or all Real
  (consistent within a single call)".
\<close>

definition arithmetic_sorts :: "Sort list \<Rightarrow> error + bool" where
  "arithmetic_sorts sorts =
     Inr (check_sortkind_matches INT_SK sorts \<or> check_sortkind_matches REAL sorts)"

text \<open>
  The dispatch table, entry by entry as the source initialises it;
  \<^verbatim>\<open>find(op) != end()\<close> and \<^verbatim>\<open>at(op)\<close> are \<open>map_of\<close> on it.
\<close>

definition sort_check_dispatch :: "(PrimOp \<times> (Sort list \<Rightarrow> error + bool)) list" where
  "sort_check_dispatch =
   [ (And, bool_sorts),
     (Or, bool_sorts),
     (Xor, bool_sorts),
     (NotOp, bool_sorts),
     (Implies, bool_sorts),
     (Iff, bool_sorts),
     (Ite, check_ite_sorts),
     (Equal, bool_sorts),
     (Distinct, bool_sorts),
     (Apply, check_apply_sorts),
     (PlusOp, arithmetic_sorts),
     (Minus, arithmetic_sorts),
     (Negate, arithmetic_sorts),
     (Mult, arithmetic_sorts),
     (Div, arithmetic_sorts),
     (Lt, bool_sorts),
     (Le, bool_sorts),
     (Gt, bool_sorts),
     (Ge, bool_sorts),
     (Mod, int_sorts),
     (Abs, int_sorts),
     (PowOp, int_sorts),
     (IntDiv, int_sorts),
     (To_Real, int_sorts),
     (To_Int, real_sorts),
     (Is_Int, int_sorts),
     (Concat, bv_sorts),
     (Extract, bv_sorts),
     (BVNot, bv_sorts),
     (BVNeg, bv_sorts),
     (BVAnd, eq_bv_sorts),
     (BVOr, eq_bv_sorts),
     (BVXor, eq_bv_sorts),
     (BVNand, eq_bv_sorts),
     (BVNor, eq_bv_sorts),
     (BVXnor, eq_bv_sorts),
     (BVAdd, eq_bv_sorts),
     (BVSub, eq_bv_sorts),
     (BVMul, eq_bv_sorts),
     (BVUdiv, eq_bv_sorts),
     (BVSdiv, eq_bv_sorts),
     (BVUrem, eq_bv_sorts),
     (BVSrem, eq_bv_sorts),
     (BVSmod, eq_bv_sorts),
     (BVShl, eq_bv_sorts),
     (BVAshr, eq_bv_sorts),
     (BVLshr, eq_bv_sorts),
     (BVComp, eq_bv_sorts),
     (BVUlt, eq_bv_sorts),
     (BVUle, eq_bv_sorts),
     (BVUgt, eq_bv_sorts),
     (BVUge, eq_bv_sorts),
     (BVSlt, eq_bv_sorts),
     (BVSle, eq_bv_sorts),
     (BVSgt, eq_bv_sorts),
     (BVSge, eq_bv_sorts),
     (Zero_Extend, bv_sorts),
     (Sign_Extend, bv_sorts),
     (Repeat, bv_sorts),
     (Rotate_Left, bv_sorts),
     (Rotate_Right, bv_sorts),
     (BV_To_Nat, bv_sorts),
     (Int_To_BV, int_sorts),
     (Select, check_select_sorts),
     (Store, check_store_sorts) ]"

text \<open>
  \<^verbatim>\<open>check_sortedness\<close>. \<open>get_arity\<close> (ops.cpp is absent) is a parameter: the pair of
  the least and the greatest number of arguments of a primitive operator.
\<close>

definition check_sortedness ::
  "(PrimOp \<Rightarrow> nat \<times> nat) \<Rightarrow> Op \<Rightarrow> 'b Term list \<Rightarrow> error + bool" where
  "check_sortedness get_arity op terms =
     (let min_max_arity = get_arity (prim_op op);
          num_args = length terms
      in if num_args < fst min_max_arity \<or> num_args > snd min_max_arity then Inr False
         else case map_of sort_check_dispatch (prim_op op) of
                Some check \<Rightarrow> check (map get_sort terms)
              | None \<Rightarrow> Inl NotImplementedException)"

section \<open>The logging solver (logging\_solver.cpp)\<close>

text \<open>
  Modelled from the spec: the backend interface of section 4.2 (solver.h and every engine
  are absent). \<open>'b\<close> is the type of the engine's opaque term handles, whose HOL equality
  stands for the engine's own comparison of terms, and \<open>'s\<close> the type of the engine's
  state. The methods that logging\_solver.cpp declares \<^verbatim>\<open>const\<close> read the state and
  return a handle; the others return the new state as well. Every method can raise. The
  four \<^verbatim>\<open>make_term(op, ...)\<close> overloads of the engine are one field, on the list of
  the arguments. \<open>bk_get_array_values\<close> returns the explicit assignments, in the order
  in which the returned map is iterated, and what the engine stored in its reference
  parameter \<^verbatim>\<open>out_const_base\<close> (\<open>None\<close> is the null pointer). \<open>bk_get_sort\<close> and
  \<open>bk_is_value\<close> are the methods of the engine's terms.
\<close>

record ('b, 's) AbsSmtSolver =
  bk_make_term_bool :: "'s \<Rightarrow> bool \<Rightarrow> error + 'b"
  bk_make_term_int :: "'s \<Rightarrow> 64 word \<Rightarrow> Sort \<Rightarrow> error + 'b"
  bk_make_term_str :: "'s \<Rightarrow> string \<Rightarrow> Sort \<Rightarrow> 64 word \<Rightarrow> error + 'b"
  bk_make_term_const_array :: "'s \<Rightarrow> 'b \<Rightarrow> Sort \<Rightarrow> error + 'b"
  bk_make_symbol :: "'s \<Rightarrow> string \<Rightarrow> Sort \<Rightarrow> error + ('b \<times> 's)"
  bk_make_term_op :: "'s \<Rightarrow> Op \<Rightarrow> 'b list \<Rightarrow> error + 'b"
  bk_get_value :: "'s \<Rightarrow> 'b \<Rightarrow> error + 'b"
  bk_get_array_values :: "'s \<Rightarrow> 'b \<Rightarrow> error + (('b \<times> 'b) list \<times> 'b option)"
  bk_reset :: "'s \<Rightarrow> error + 's"
  bk_reset_assertions :: "'s \<Rightarrow> error + 's"
  bk_get_sort :: "'b \<Rightarrow> Sort"
  bk_is_value :: "'b \<Rightarrow> bool"

text \<open>
  The state of a \<^verbatim>\<open>LoggingSolver\<close>: the wrapped engine, the hash table, and the
  allocator of the C++ heap, as the identity that the next \<^verbatim>\<open>new LoggingTerm\<close> gets.
\<close>

record ('b, 's) LoggingSolver =
  solver :: 's
  hashtable :: "'b Term list"
  next_obj :: nat


definition new_LoggingTerm ::
  "('b, 's) LoggingSolver \<Rightarrow> 'b \<Rightarrow> Sort \<Rightarrow> Op \<Rightarrow> 'b Term list \<Rightarrow> string option
     \<Rightarrow> 'b Term \<times> ('b, 's) LoggingSolver" where
  "new_LoggingTerm st t s op children nm =
     (LoggingTerm (next_obj st) t s op children nm, st\<lparr>next_obj := next_obj st + 1\<rparr>)"

text \<open>
  Modelled from the spec: structural equality of logging terms (logging\_term.cpp is
  absent), from section 3: "two logging terms are structurally equal iff their op,
  children, sort, and (if symbol) name are equal, with values compared through the
  backend", the children by their identity (section 4.4). \<open>is_val\<close> is the engine's
  \<^verbatim>\<open>is_value\<close>.
\<close>

definition term_compare :: "('b \<Rightarrow> bool) \<Rightarrow> 'b Term \<Rightarrow> 'b Term \<Rightarrow> bool" where
  "term_compare is_val t1 t2 =
     (get_op t1 = get_op t2 \<and> get_sort t1 = get_sort t2
      \<and> map obj_id (get_children t1) = map obj_id (get_children t2)
      \<and> symbol_name t1 = symbol_name t2
      \<and> (if is_val (wrapped t1) \<or> is_val (wrapped t2) then wrapped t1 = wrapped t2
         else True))"

text \<open>
  Modelled from the spec: \<^verbatim>\<open>TermHashTable::lookup(Term &)\<close> of the hash table of
  section 4.4 (term\_hashtable.cpp is absent), a set of logging terms up to structural
  equality. The call sites say "lookup modifies term in place and returns true if it's a
  known term", so it returns the flag and what the reference holds afterwards.
\<close>

definition hashtable_lookup ::
  "('b \<Rightarrow> bool) \<Rightarrow> 'b Term list \<Rightarrow> 'b Term \<Rightarrow> bool \<times> 'b Term" where
  "hashtable_lookup is_val table t =
     (case find (\<lambda>e. term_compare is_val e t) table of
        Some e \<Rightarrow> (True, e)
      | None \<Rightarrow> (False, t))"

text \<open>
  Modelled from the spec: \<^verbatim>\<open>TermHashTable::insert\<close> (term\_hashtable.cpp is absent).
  The table is a set: it keeps at most one term of each class of structurally equal terms.
\<close>

definition hashtable_insert ::
  "('b \<Rightarrow> bool) \<Rightarrow> 'b Term list \<Rightarrow> 'b Term \<Rightarrow> 'b Term list" where
  "hashtable_insert is_val table t =
     (if list_ex (\<lambda>e. term_compare is_val e t) table then table else table @ [t])"

text \<open>
  Modelled from the spec: \<^verbatim>\<open>TermHashTable::clear\<close> (term\_hashtable.cpp is absent),
  which empties the table.
\<close>

definition hashtable_clear :: "'b Term list \<Rightarrow> 'b Term list" where
  "hashtable_clear table = []"

text \<open>
  The lines that end every constructing operation:
  \<^verbatim>\<open>if (!hashtable->lookup(res)) { hashtable->insert(res); } return res;\<close>
\<close>

definition lookup_or_insert ::
  "('b, 's) AbsSmtSolver \<Rightarrow> ('b, 's) LoggingSolver \<Rightarrow> 'b Term
     \<Rightarrow> 'b Term \<times> ('b, 's) LoggingSolver" where
  "lookup_or_insert bk st res =
     (case hashtable_lookup (bk_is_value bk) (hashtable st) res of
        (True, res') \<Rightarrow> (res', st)
      | (False, res') \<Rightarrow>
          (res', st\<lparr>hashtable := hashtable_insert (bk_is_value bk) (hashtable st) res'\<rparr>))"






text \<open>
  \<^verbatim>\<open>make_term(const Op op, const TermVec & terms)\<close>. \<open>compute_sort\<close>
  (logging\_sort\_computation.cpp is absent) is a parameter: from the operator, the sorts of
  the children and the sort the engine reports, the sort of the new term, or an exception.
\<close>

definition make_term ::
  "(Op \<Rightarrow> Sort list \<Rightarrow> Sort \<Rightarrow> error + Sort) \<Rightarrow> ('b, 's) AbsSmtSolver
     \<Rightarrow> ('b, 's) LoggingSolver \<Rightarrow> Op \<Rightarrow> 'b Term list
     \<Rightarrow> error + ('b Term \<times> ('b, 's) LoggingSolver)" where
  "make_term compute_sort bk st op terms =
     (let lterms = map wrapped terms in
      case bk_make_term_op bk (solver st) op lterms of
        Inl e \<Rightarrow> Inl e
      | Inr wrapped_res \<Rightarrow>
          (let logging_sorts = map get_sort terms in
           case compute_sort op logging_sorts (bk_get_sort bk wrapped_res) of
             Inl e \<Rightarrow> Inl e
           | Inr res_logging_sort \<Rightarrow>
               (case new_LoggingTerm st wrapped_res res_logging_sort op terms None of
                  (res, st1) \<Rightarrow> Inr (lookup_or_insert bk st1 res))))"





text \<open>
  \<^verbatim>\<open>assignments[idx] = val\<close> on an \<^verbatim>\<open>UnorderedTermMap\<close>, whose keys are compared
  structurally: the value of an equal key is replaced, a new key is added.
\<close>

fun map_assign ::
  "('b \<Rightarrow> bool) \<Rightarrow> ('b Term \<times> 'b Term) list \<Rightarrow> 'b Term \<Rightarrow> 'b Term
     \<Rightarrow> ('b Term \<times> 'b Term) list" where
  "map_assign is_val [] idx val = [(idx, val)]"
| "map_assign is_val ((k, v) # m) idx val =
     (if term_compare is_val k idx then (k, val) # m
      else (k, v) # map_assign is_val m idx val)"

text \<open>The loop of \<^verbatim>\<open>get_array_values\<close> over the engine's assignments.\<close>

fun wrap_assignments ::
  "('b, 's) AbsSmtSolver \<Rightarrow> Sort \<Rightarrow> Sort \<Rightarrow> ('b \<times> 'b) list
     \<Rightarrow> ('b Term \<times> 'b Term) list \<Rightarrow> ('b, 's) LoggingSolver
     \<Rightarrow> error + (('b Term \<times> 'b Term) list \<times> ('b, 's) LoggingSolver)" where
  "wrap_assignments bk idxsort elemsort [] assignments st = Inr (assignments, st)"
| "wrap_assignments bk idxsort elemsort (elem # rest) assignments st =
     (if \<not> bk_is_value bk (fst elem) then Inl AssertionFailure
      else if \<not> bk_is_value bk (snd elem) then Inl AssertionFailure
      else (case new_LoggingTerm st (fst elem) idxsort null_Op [] None of
              (idx, st1) \<Rightarrow>
                (case new_LoggingTerm st1 (snd elem) elemsort null_Op [] None of
                   (val, st2) \<Rightarrow>
                     wrap_assignments bk idxsort elemsort rest
                       (map_assign (bk_is_value bk) assignments idx val) st2)))"

text \<open>
  The body of \<^verbatim>\<open>get_array_values\<close>, with the value that its own variable
  \<^verbatim>\<open>out_const_base\<close> holds at the \<^verbatim>\<open>return\<close>.
\<close>

definition get_array_values_body ::
  "('b, 's) AbsSmtSolver \<Rightarrow> ('b, 's) LoggingSolver \<Rightarrow> 'b Term \<Rightarrow> 'b Term option
     \<Rightarrow> error + (('b Term \<times> 'b Term) list \<times> 'b Term option \<times> ('b, 's) LoggingSolver)" where
  "get_array_values_body bk st arr out_const_base =
     (case get_indexsort (get_sort arr) of
        Inl e \<Rightarrow> Inl e
      | Inr idxsort \<Rightarrow>
      (case get_elemsort (get_sort arr) of
        Inl e \<Rightarrow> Inl e
      | Inr elemsort \<Rightarrow>
      (case bk_get_array_values bk (solver st) (wrapped arr) of
        Inl e \<Rightarrow> Inl e
      | Inr (wrapped_assignments, wrapped_out_const_base) \<Rightarrow>
      (case (case wrapped_out_const_base of
               None \<Rightarrow> Inr (out_const_base, st)
             | Some w \<Rightarrow>
                 if get_sort_kind (bk_get_sort bk w) = ARRAY
                 then Inl NotImplementedException
                 else (case new_LoggingTerm st w elemsort null_Op [] None of
                         (t, st1) \<Rightarrow> Inr (Some t, st1))) of
         Inl e \<Rightarrow> Inl e
       | Inr (out_const_base1, st1) \<Rightarrow>
           (case wrap_assignments bk idxsort elemsort wrapped_assignments [] st1 of
              Inl e \<Rightarrow> Inl e
            | Inr (assignments, st2) \<Rightarrow> Inr (assignments, out_const_base1, st2))))))"

text \<open>
  \<^verbatim>\<open>get_array_values(const Term & arr, Term out_const_base)\<close>. The second parameter is
  passed by value: the function works on its own copy of the caller's pointer, and the
  copy is destroyed at the \<^verbatim>\<open>return\<close>. The result is the returned map, the caller's
  pointer after the call, and the new state.
\<close>

definition get_array_values ::
  "('b, 's) AbsSmtSolver \<Rightarrow> ('b, 's) LoggingSolver \<Rightarrow> 'b Term \<Rightarrow> 'b Term option
     \<Rightarrow> error + (('b Term \<times> 'b Term) list \<times> 'b Term option \<times> ('b, 's) LoggingSolver)" where
  "get_array_values bk st arr out_const_base =
     (case get_array_values_body bk st arr out_const_base of
        Inl e \<Rightarrow> Inl e
      | Inr (assignments, local_out_const_base, st') \<Rightarrow>
          Inr (assignments, out_const_base, st'))"

definition reset ::
  "('b, 's) AbsSmtSolver \<Rightarrow> ('b, 's) LoggingSolver \<Rightarrow> error + ('b, 's) LoggingSolver" where
  "reset bk st =
     (case bk_reset bk (solver st) of
        Inl e \<Rightarrow> Inl e
      | Inr s' \<Rightarrow> Inr (st\<lparr>solver := s', hashtable := hashtable_clear (hashtable st)\<rparr>))"

definition reset_assertions ::
  "('b, 's) AbsSmtSolver \<Rightarrow> ('b, 's) LoggingSolver \<Rightarrow> error + ('b, 's) LoggingSolver" where
  "reset_assertions bk st =
     (case bk_reset_assertions bk (solver st) of
        Inl e \<Rightarrow> Inl e
      | Inr s' \<Rightarrow> Inr (st\<lparr>solver := s'\<rparr>))"

section \<open>Histories of calls\<close>









section \<open>Concrete inputs\<close>

text \<open>
  An arity table that gives every operator exactly two arguments, an engine whose handles
  and state are numbers, and a sort computation, for the evaluation of the model on
  concrete calls. The engine's handles below 100 are values; its model of any array is
  the constant base 0 with the entries 1 to 10 and 2 to 20.
\<close>

definition binary_arity :: "PrimOp \<Rightarrow> nat \<times> nat" where
  "binary_arity p = (2, 2)"

definition example_backend :: "(nat, nat) AbsSmtSolver" where
  "example_backend =
     \<lparr> bk_make_term_bool = (\<lambda>s b. Inr (if b then 1 else 0)),
       bk_make_term_int = (\<lambda>s i srt. Inr (unat i mod 100)),
       bk_make_term_str = (\<lambda>s nm srt base. Inr (length nm mod 100)),
       bk_make_term_const_array = (\<lambda>s v srt. Inr (100 + v)),
       bk_make_symbol = (\<lambda>s nm srt. Inr (200 + length nm, s)),
       bk_make_term_op = (\<lambda>s op args. Inr (300 + sum_list args)),
       bk_get_value = (\<lambda>s t. Inr 5),
       bk_get_array_values = (\<lambda>s t. Inr ([(1, 10), (2, 20)], Some 0)),
       bk_reset = (\<lambda>s. Inr 0),
       bk_reset_assertions = (\<lambda>s. Inr s),
       bk_get_sort = (\<lambda>t. IntSort),
       bk_is_value = (\<lambda>t. t < 100) \<rparr>"

text \<open>
  The same engine with a \<^verbatim>\<open>reset_assertions\<close> that raises, and with a
  \<^verbatim>\<open>reset\<close> that raises.
\<close>

definition example_backend_no_reset_assertions :: "(nat, nat) AbsSmtSolver" where
  "example_backend_no_reset_assertions =
     example_backend\<lparr>bk_reset_assertions := (\<lambda>s. Inl BackendFailure)\<rparr>"

definition example_backend_no_reset :: "(nat, nat) AbsSmtSolver" where
  "example_backend_no_reset = example_backend\<lparr>bk_reset := (\<lambda>s. Inl BackendFailure)\<rparr>"

definition example_compute_sort :: "Op \<Rightarrow> Sort list \<Rightarrow> Sort \<Rightarrow> error + Sort" where
  "example_compute_sort op sorts wrapped_sort = Inr BoolSort"

definition example_x :: "nat Term" where
  "example_x = LoggingTerm 0 201 IntSort null_Op [] (Some ''x'')"

definition example_arr :: "nat Term" where
  "example_arr = LoggingTerm 1 203 (ArraySort IntSort IntSort) null_Op [] (Some ''arr'')"

definition example_state :: "(nat, nat) LoggingSolver" where
  "example_state = \<lparr>solver = 0, hashtable = [example_x, example_arr], next_obj = 2\<rparr>"

section \<open>Sort inference: the dispatch table and the arity check\<close>

lemma dispatch_bool_sorts:
  "map_of sort_check_dispatch Equal = Some bool_sorts"
  "map_of sort_check_dispatch Distinct = Some bool_sorts"
  "map_of sort_check_dispatch Lt = Some bool_sorts"
  "map_of sort_check_dispatch Le = Some bool_sorts"
  "map_of sort_check_dispatch Gt = Some bool_sorts"
  "map_of sort_check_dispatch Ge = Some bool_sorts"
  by (simp_all add: sort_check_dispatch_def)

lemma dispatch_Apply: "map_of sort_check_dispatch Apply = Some check_apply_sorts"
  by (simp add: sort_check_dispatch_def)

lemma dispatch_NullPrimOp: "map_of sort_check_dispatch NullPrimOp = None"
  by (simp add: sort_check_dispatch_def)

text \<open>
  What an operator whose entry is \<^verbatim>\<open>bool_sorts\<close> accepts: argument lists of the right
  length whose sorts are all Bool.
\<close>

lemma check_sortedness_bool_entry:
  assumes "map_of sort_check_dispatch (prim_op op) = Some bool_sorts"
    and "fst (get_arity (prim_op op)) \<le> length terms"
    and "length terms \<le> snd (get_arity (prim_op op))"
  shows "check_sortedness get_arity op terms
           = Inr (check_sortkind_matches BOOL (map get_sort terms))"
  using assms by (simp add: check_sortedness_def Let_def bool_sorts_def not_less)

text \<open>
  Claim C1. The claim is that Equal and Distinct accept exactly the argument lists whose
  terms share one sort. The table sends both operators to \<^verbatim>\<open>bool_sorts\<close>, and
  \<^verbatim>\<open>equal_sorts\<close> is not used for them: two arguments of the same sort BV(4) are
  rejected by both.
\<close>

theorem equal_distinct_reject_same_sort:
  "check_sortedness binary_arity (Op Equal [])
     [LoggingTerm 0 (0::nat) (BVSort 4) null_Op [] (Some ''x''),
      LoggingTerm 1 1 (BVSort 4) null_Op [] (Some ''y'')] = Inr False
   \<and> check_sortedness binary_arity (Op Distinct [])
     [LoggingTerm 0 (0::nat) (BVSort 4) null_Op [] (Some ''x''),
      LoggingTerm 1 1 (BVSort 4) null_Op [] (Some ''y'')] = Inr False"
  by (simp add: check_sortedness_def dispatch_bool_sorts bool_sorts_def binary_arity_def)

text \<open>
  Claim C3. The claim is that Lt, Le, Gt and Ge accept exactly the argument lists whose
  terms are all Int or all Real. The table sends the four operators to
  \<^verbatim>\<open>bool_sorts\<close>, where the arithmetic operators have \<^verbatim>\<open>arithmetic_sorts\<close>: two
  Int arguments are rejected by each of them, and two Bool arguments are accepted.
\<close>

theorem comparisons_reject_int_accept_bool:
  "check_sortedness binary_arity (Op Lt [])
     [LoggingTerm 0 (0::nat) IntSort null_Op [] (Some ''x''),
      LoggingTerm 1 1 IntSort null_Op [] (Some ''y'')] = Inr False
   \<and> check_sortedness binary_arity (Op Le [])
     [LoggingTerm 0 (0::nat) IntSort null_Op [] (Some ''x''),
      LoggingTerm 1 1 IntSort null_Op [] (Some ''y'')] = Inr False
   \<and> check_sortedness binary_arity (Op Gt [])
     [LoggingTerm 0 (0::nat) IntSort null_Op [] (Some ''x''),
      LoggingTerm 1 1 IntSort null_Op [] (Some ''y'')] = Inr False
   \<and> check_sortedness binary_arity (Op Ge [])
     [LoggingTerm 0 (0::nat) IntSort null_Op [] (Some ''x''),
      LoggingTerm 1 1 IntSort null_Op [] (Some ''y'')] = Inr False
   \<and> check_sortedness binary_arity (Op Lt [])
     [LoggingTerm 2 (2::nat) BoolSort null_Op [] (Some ''p''),
      LoggingTerm 3 3 BoolSort null_Op [] (Some ''q'')] = Inr True"
  by (simp add: check_sortedness_def dispatch_bool_sorts bool_sorts_def binary_arity_def)

text \<open>
  Claim C7. When the number of arguments is below the least or above the greatest arity
  of the operator, \<^verbatim>\<open>check_sortedness\<close> returns false; it raises nothing, whatever the
  operator and the arguments are.
\<close>

theorem check_sortedness_wrong_arity:
  assumes "length terms < fst (get_arity (prim_op op))
             \<or> snd (get_arity (prim_op op)) < length terms"
  shows "check_sortedness get_arity op terms = Inr False"
  using assms by (auto simp: check_sortedness_def Let_def)

theorem check_sortedness_wrong_arity_witness:
  "(length [LoggingTerm 0 (0::nat) IntSort null_Op [] (Some ''x'')]
        < fst (binary_arity (prim_op (Op NullPrimOp [])))
      \<or> snd (binary_arity (prim_op (Op NullPrimOp [])))
        < length [LoggingTerm 0 (0::nat) IntSort null_Op [] (Some ''x'')])
   \<and> check_sortedness binary_arity (Op NullPrimOp [])
        [LoggingTerm 0 (0::nat) IntSort null_Op [] (Some ''x'')] = Inr False"
  using check_sortedness_wrong_arity
    [of "[LoggingTerm 0 (0::nat) IntSort null_Op [] (Some ''x'')]" binary_arity
        "Op NullPrimOp []"]
  by (simp add: binary_arity_def)

text \<open>
  Claim C8. For an operator that has no entry in the dispatch table, and a number of
  arguments within its arity bounds, \<^verbatim>\<open>check_sortedness\<close> raises
  \<^verbatim>\<open>NotImplementedException\<close>; it returns no boolean.
\<close>

theorem check_sortedness_unknown_operator:
  assumes "map_of sort_check_dispatch (prim_op op) = None"
    and "fst (get_arity (prim_op op)) \<le> length terms"
    and "length terms \<le> snd (get_arity (prim_op op))"
  shows "check_sortedness get_arity op terms = Inl NotImplementedException"
  using assms by (auto simp: check_sortedness_def Let_def)

theorem check_sortedness_unknown_operator_witness:
  "map_of sort_check_dispatch (prim_op (Op NullPrimOp [])) = None
   \<and> fst (binary_arity (prim_op (Op NullPrimOp [])))
       \<le> length [LoggingTerm 0 (0::nat) IntSort null_Op [] (Some ''x''),
                 LoggingTerm 1 1 IntSort null_Op [] (Some ''y'')]
   \<and> length [LoggingTerm 0 (0::nat) IntSort null_Op [] (Some ''x''),
             LoggingTerm 1 1 IntSort null_Op [] (Some ''y'')]
       \<le> snd (binary_arity (prim_op (Op NullPrimOp [])))
   \<and> check_sortedness binary_arity (Op NullPrimOp [])
        [LoggingTerm 0 (0::nat) IntSort null_Op [] (Some ''x''),
         LoggingTerm 1 1 IntSort null_Op [] (Some ''y'')] = Inl NotImplementedException"
  using check_sortedness_unknown_operator
    [of "Op NullPrimOp []" binary_arity
        "[LoggingTerm 0 (0::nat) IntSort null_Op [] (Some ''x''),
          LoggingTerm 1 1 IntSort null_Op [] (Some ''y'')]"]
  by (simp add: binary_arity_def dispatch_NullPrimOp)

section \<open>Sort inference: function application\<close>

text \<open>
  Past the guard \<^verbatim>\<open>domain_sorts.size() != sorts.size() + 1\<close> the domain is longer
  than the argument vector, so the loop cannot reach its end: it stops at a mismatch or
  reads \<^verbatim>\<open>sorts[i + 1]\<close> past the end.
\<close>

lemma check_apply_loop_not_True:
  "length d = length s + 1 \<Longrightarrow> i \<le> length s \<Longrightarrow> check_apply_loop d s i \<noteq> Inr True"
proof (induction d s i rule: check_apply_loop.induct)
  case (1 d s i)
  show ?case
    using 1 by (subst check_apply_loop.simps) auto
qed

lemma check_apply_sorts_not_True: "check_apply_sorts sorts \<noteq> Inr True"
  using check_apply_loop_not_True [of _ sorts 0]
  by (auto simp: check_apply_sorts_def split: sum.splits)

text \<open>
  Claim C2. The claim is that Apply accepts exactly a function term followed by arguments
  whose sorts are the domain sorts in order. The guard of \<^verbatim>\<open>check_apply_sorts\<close> has
  its \<^verbatim>\<open>+ 1\<close> on the side of \<^verbatim>\<open>sorts.size()\<close>, against the comment under it: a
  function of sort Function(Int; Bool) applied to one Int argument is rejected.
\<close>

theorem apply_rejects_well_sorted_application:
  "check_sortedness binary_arity (Op Apply [])
     [LoggingTerm 0 (0::nat) (FunctionSort [IntSort] BoolSort) null_Op [] (Some ''f''),
      LoggingTerm 1 1 IntSort null_Op [] (Some ''x'')] = Inr False"
  by (simp add: check_sortedness_def dispatch_Apply check_apply_sorts_def binary_arity_def)

text \<open>
  Claim C10. The claim is that, past the guard on the number of domain sorts, every read of
  the argument vector is within its bounds. With a function of four Int arguments and two
  Int arguments after it, the guard passes (4 = 3 + 1), \<^verbatim>\<open>sorts[1]\<close> and
  \<^verbatim>\<open>sorts[2]\<close> match, and the third round reads \<^verbatim>\<open>sorts[3]\<close> of a vector of
  size 3.
\<close>

theorem check_apply_sorts_reads_past_end:
  "check_apply_sorts
     [FunctionSort [IntSort, IntSort, IntSort, IntSort] BoolSort, IntSort, IntSort]
   = Inl OutOfBounds"
  by (simp add: check_apply_sorts_def check_apply_loop.simps)

section \<open>The logging solver: hash-consing\<close>

lemma term_compare_candidate:
  "term_compare is_val e (LoggingTerm n w s op ch nm)
     = term_compare is_val e (LoggingTerm m w s op ch nm)"
  by (simp add: term_compare_def)

lemma term_compare_refl: "term_compare is_val t t"
  by (simp add: term_compare_def)

lemma find_append_single: "find P xs = None \<Longrightarrow> P x \<Longrightarrow> find P (xs @ [x]) = Some x"
  by (induction xs) (auto split: if_splits)

lemma list_ex_find: "list_ex P xs \<longleftrightarrow> find P xs \<noteq> None"
  by (induction xs) auto

text \<open>The two ways out of the lookup: a hit returns the entry, a miss appends the candidate.\<close>

lemma lookup_or_insert_cases:
  assumes "lookup_or_insert bk st res = (t, st')"
  shows "(find (\<lambda>e. term_compare (bk_is_value bk) e res) (hashtable st) = Some t \<and> st' = st)
       \<or> (find (\<lambda>e. term_compare (bk_is_value bk) e res) (hashtable st) = None \<and> t = res
           \<and> st' = st\<lparr>hashtable := hashtable st @ [res]\<rparr>)"
proof (cases "find (\<lambda>e. term_compare (bk_is_value bk) e res) (hashtable st)")
  case None
  with assms show ?thesis
    by (auto simp: lookup_or_insert_def hashtable_lookup_def hashtable_insert_def list_ex_find)
next
  case (Some e)
  with assms show ?thesis
    by (auto simp: lookup_or_insert_def hashtable_lookup_def)
qed

lemma lookup_or_insert_frame:
  assumes "lookup_or_insert bk st res = (t, st')"
  shows "solver st' = solver st \<and> next_obj st' = next_obj st"
  using lookup_or_insert_cases [OF assms] by auto




text \<open>
  A second candidate with the fields of the first, allocated later, finds what the first
  lookup returned, and the table stays as the first lookup left it.
\<close>

lemma lookup_or_insert_again:
  assumes "lookup_or_insert bk (st\<lparr>next_obj := n1\<rparr>) (LoggingTerm n w s op ch nm) = (t1, st1)"
  shows "lookup_or_insert bk (st1\<lparr>next_obj := n2\<rparr>) (LoggingTerm m w s op ch nm)
           = (t1, st1\<lparr>next_obj := n2\<rparr>)"
proof (cases "find (\<lambda>e. term_compare (bk_is_value bk) e (LoggingTerm n w s op ch nm))
                (hashtable st)")
  case None
  then have "find (\<lambda>e. term_compare (bk_is_value bk) e (LoggingTerm m w s op ch nm))
               (hashtable st @ [LoggingTerm n w s op ch nm])
             = Some (LoggingTerm n w s op ch nm)"
    using term_compare_candidate [of "bk_is_value bk" _ n w s op ch nm m]
      term_compare_candidate [of "bk_is_value bk" "LoggingTerm n w s op ch nm" m w s op ch nm n]
      term_compare_refl [of "bk_is_value bk" "LoggingTerm n w s op ch nm"]
    by (intro find_append_single) auto
  with None assms show ?thesis
    by (auto simp: lookup_or_insert_def hashtable_lookup_def hashtable_insert_def list_ex_find)
next
  case (Some e)
  then have "find (\<lambda>e. term_compare (bk_is_value bk) e (LoggingTerm m w s op ch nm))
               (hashtable st) = Some e"
    using term_compare_candidate [of "bk_is_value bk" _ n w s op ch nm m] by simp
  with Some assms show ?thesis
    by (auto simp: lookup_or_insert_def hashtable_lookup_def)
qed

text \<open>
  Claim C5. When \<^verbatim>\<open>make_term(op, terms)\<close> has returned a term, the same call made
  again returns too, and what it returns is structurally equal to the first term and is
  the same object; the hash table has as many entries after the second call as before
  it. This holds for all children, canonical or not.
\<close>

theorem make_term_idempotent:
  assumes "make_term cs bk st op terms = Inr (t1, st1)"
  shows "\<exists>t2 st2. make_term cs bk st1 op terms = Inr (t2, st2)
           \<and> term_compare (bk_is_value bk) t1 t2 \<and> obj_id t2 = obj_id t1 \<and> t2 = t1
           \<and> length (hashtable st2) = length (hashtable st1)"
proof -
  from assms obtain w where w: "bk_make_term_op bk (solver st) op (map wrapped terms) = Inr w"
    by (auto simp: make_term_def Let_def split: sum.splits)
  from assms w obtain s where s: "cs op (map get_sort terms) (bk_get_sort bk w) = Inr s"
    by (auto simp: make_term_def Let_def split: sum.splits)
  from assms w s have first:
    "lookup_or_insert bk (st\<lparr>next_obj := next_obj st + 1\<rparr>)
       (LoggingTerm (next_obj st) w s op terms None) = (t1, st1)"
    by (simp add: make_term_def Let_def new_LoggingTerm_def)
  from lookup_or_insert_frame [OF first] have fr: "solver st1 = solver st" by simp
  from lookup_or_insert_again [OF first, of "next_obj st1 + 1" "next_obj st1"]
  have "make_term cs bk st1 op terms = Inr (t1, st1\<lparr>next_obj := next_obj st1 + 1\<rparr>)"
    using w s fr by (simp add: make_term_def Let_def new_LoggingTerm_def)
  then show ?thesis
    by (simp add: term_compare_refl)
qed

theorem make_term_idempotent_witness:
  "make_term example_compute_sort example_backend example_state (Op PlusOp [])
      [example_x, example_x]
     = Inr (LoggingTerm 2 702 BoolSort (Op PlusOp []) [example_x, example_x] None,
            \<lparr>solver = 0,
             hashtable = [example_x, example_arr,
               LoggingTerm 2 702 BoolSort (Op PlusOp []) [example_x, example_x] None],
             next_obj = 3\<rparr>)
   \<and> (\<exists>t2 st2.
         make_term example_compute_sort example_backend
           \<lparr>solver = 0,
            hashtable = [example_x, example_arr,
              LoggingTerm 2 702 BoolSort (Op PlusOp []) [example_x, example_x] None],
            next_obj = 3\<rparr>
           (Op PlusOp []) [example_x, example_x] = Inr (t2, st2)
         \<and> term_compare (bk_is_value example_backend)
             (LoggingTerm 2 702 BoolSort (Op PlusOp []) [example_x, example_x] None) t2
         \<and> obj_id t2 = obj_id (LoggingTerm 2 702 BoolSort (Op PlusOp []) [example_x, example_x] None)
         \<and> t2 = LoggingTerm 2 702 BoolSort (Op PlusOp []) [example_x, example_x] None
         \<and> length (hashtable st2)
             = length (hashtable
                 \<lparr>solver = 0::nat,
                  hashtable = [example_x, example_arr,
                    LoggingTerm 2 702 BoolSort (Op PlusOp []) [example_x, example_x] None],
                  next_obj = 3\<rparr>))"
proof -
  have first:
    "make_term example_compute_sort example_backend example_state (Op PlusOp [])
        [example_x, example_x]
       = Inr (LoggingTerm 2 702 BoolSort (Op PlusOp []) [example_x, example_x] None,
              \<lparr>solver = 0,
               hashtable = [example_x, example_arr,
                 LoggingTerm 2 702 BoolSort (Op PlusOp []) [example_x, example_x] None],
               next_obj = 3\<rparr>)"
    by (simp add: make_term_def example_compute_sort_def example_backend_def example_state_def
        example_x_def example_arr_def new_LoggingTerm_def lookup_or_insert_def
        hashtable_lookup_def hashtable_insert_def term_compare_def null_Op_def)
  from make_term_idempotent [OF first] first show ?thesis
    by blast
qed

section \<open>The logging solver: the invariant of the hash table\<close>



















section \<open>The logging solver: array values and reset\<close>

lemma get_array_values_caller_pointer:
  "get_array_values bk st arr out_const_base = Inr (m, out_const_base', st')
     \<Longrightarrow> out_const_base' = out_const_base"
  by (auto simp: get_array_values_def split: sum.splits)

text \<open>
  Claim C6. The claim is that, when the engine reports a constant base that is not an
  array, the caller's \<^verbatim>\<open>out_const_base\<close> refers after the call to a new logging
  term that wraps the base. The parameter is passed by value, so the new term is stored
  in the function's copy: here the engine reports the base 0, the two entries of the map
  are wrapped in new logging terms of the index and element sorts, and the caller's
  pointer, null before the call, is null after it.
\<close>

theorem get_array_values_drops_const_base:
  "get_array_values example_backend example_state example_arr None
     = Inr ([(LoggingTerm 3 1 IntSort null_Op [] None, LoggingTerm 4 10 IntSort null_Op [] None),
             (LoggingTerm 5 2 IntSort null_Op [] None, LoggingTerm 6 20 IntSort null_Op [] None)],
            None, example_state\<lparr>next_obj := 7\<rparr>)
   \<and> get_array_values_body example_backend example_state example_arr None
     = Inr ([(LoggingTerm 3 1 IntSort null_Op [] None, LoggingTerm 4 10 IntSort null_Op [] None),
             (LoggingTerm 5 2 IntSort null_Op [] None, LoggingTerm 6 20 IntSort null_Op [] None)],
            Some (LoggingTerm 2 0 IntSort null_Op [] None), example_state\<lparr>next_obj := 7\<rparr>)"
  by (simp add: get_array_values_def get_array_values_body_def example_backend_def
      example_state_def example_arr_def new_LoggingTerm_def term_compare_def null_Op_def)

lemma reset_raises:
  "bk_reset bk (solver st) = Inl e \<Longrightarrow> reset bk st = Inl e"
  "bk_reset_assertions bk (solver st) = Inl e \<Longrightarrow> reset_assertions bk st = Inl e"
  by (simp_all add: reset_def reset_assertions_def)

text \<open>
  Claim C9. Whenever the engine's \<^verbatim>\<open>reset\<close> returns, \<^verbatim>\<open>reset\<close> returns with
  the engine in the state that call left and with a hash table of zero entries. Whenever
  the engine's \<^verbatim>\<open>reset_assertions\<close> returns, \<^verbatim>\<open>reset_assertions\<close> returns
  with the engine in the state that call left and with the hash table as it was. Each of
  the two holds whatever the other method of the engine does.
\<close>

theorem reset_clears_reset_assertions_keeps:
  "(bk_reset bk (solver st) = Inr s1
      \<longrightarrow> (\<exists>st1. reset bk st = Inr st1 \<and> length (hashtable st1) = 0 \<and> solver st1 = s1))
   \<and> (bk_reset_assertions bk (solver st) = Inr s2
      \<longrightarrow> (\<exists>st2. reset_assertions bk st = Inr st2 \<and> hashtable st2 = hashtable st
                 \<and> solver st2 = s2))"
  by (simp add: reset_def reset_assertions_def hashtable_clear_def)

theorem reset_clears_reset_assertions_keeps_witness:
  "bk_reset example_backend_no_reset_assertions (solver example_state) = Inr 0
   \<and> bk_reset_assertions example_backend_no_reset_assertions (solver example_state)
       = Inl BackendFailure
   \<and> bk_reset_assertions example_backend_no_reset (solver example_state) = Inr 0
   \<and> bk_reset example_backend_no_reset (solver example_state) = Inl BackendFailure
   \<and> (\<exists>st1. reset example_backend_no_reset_assertions example_state = Inr st1
         \<and> length (hashtable st1) = 0 \<and> solver st1 = 0)
   \<and> (\<exists>st2. reset_assertions example_backend_no_reset example_state = Inr st2
         \<and> hashtable st2 = hashtable example_state \<and> solver st2 = 0)"
proof -
  have r: "bk_reset example_backend_no_reset_assertions (solver example_state) = Inr 0"
    by (simp add: example_backend_no_reset_assertions_def example_backend_def)
  have nra: "bk_reset_assertions example_backend_no_reset_assertions (solver example_state)
               = Inl BackendFailure"
    by (simp add: example_backend_no_reset_assertions_def example_backend_def)
  have ra: "bk_reset_assertions example_backend_no_reset (solver example_state) = Inr 0"
    by (simp add: example_backend_no_reset_def example_backend_def example_state_def)
  have nr: "bk_reset example_backend_no_reset (solver example_state) = Inl BackendFailure"
    by (simp add: example_backend_no_reset_def example_backend_def)
  from reset_clears_reset_assertions_keeps
         [of example_backend_no_reset_assertions example_state 0 0]
       reset_clears_reset_assertions_keeps
         [of example_backend_no_reset example_state 0 0]
       r nra ra nr
  show ?thesis
    by blast
qed

end
